theory Spec2Isabelle
  imports Complex_Main "HOL-Library.Multiset" "HOL-Library.Signed_Division"
begin

section \<open>Conventions of the embedding\<close>

text \<open>
  Both packages build trees out of heap-allocated nodes that point at each other
  (children, parent, next).  A Go pointer is an address of type \<open>ptr\<close>, \<open>nil\<close> is
  \<open>None\<close>, and each tree carries its node store (a function from addresses to nodes)
  together with the number of nodes allocated so far; \<open>&Node{...}\<close> takes the next
  unused address.  A Go slice is a list.  \<open>float64\<close> is modelled by \<open>real\<close>
  (no NaN, no infinities, no rounding), Go's \<open>int\<close> by \<open>int\<close>.

  A function returns \<open>None\<close> when the Go call does not return normally: an index or
  slice bound out of range, a \<open>nil\<close> dereference, or an exhausted recursion budget.
  Every function that recurses through pointers, and every loop whose bound is not
  a counter, takes that budget as its first argument.
\<close>

type_synonym ptr = nat

definition nth_opt :: "'a list \<Rightarrow> int \<Rightarrow> 'a option" where
  "nth_opt xs i = (if 0 \<le> i \<and> i < int (length xs) then Some (xs ! nat i) else None)"


section \<open>Package rtree: data\<close>

record Point =
  X :: real
  Y :: real

record Rectangle =
  MinX :: real
  MinY :: real
  MaxX :: real
  MaxY :: real

record 'd Item =
  Bounds :: Rectangle
  Data :: 'd

record 'd Node =
  isLeaf :: bool
  bounds :: Rectangle
  children :: "ptr list"
  items :: "'d Item list"
  parent :: "ptr option"

record 'd RTree =
  rt_root :: ptr
  minEntries :: int
  maxEntries :: int
  rt_size :: int
  rt_heap :: "ptr \<Rightarrow> 'd Node"
  rt_nalloc :: nat

definition zeroRect :: Rectangle where
  "zeroRect = \<lparr>MinX = 0, MinY = 0, MaxX = 0, MaxY = 0\<rparr>"

definition zeroNode :: "'d Node" where
  "zeroNode = \<lparr>isLeaf = False, bounds = zeroRect, children = [], items = [], parent = None\<rparr>"


definition NewRTree :: "int \<Rightarrow> int \<Rightarrow> 'd RTree" where
  "NewRTree minE maxE =
     \<lparr>rt_root = 0,
      minEntries = (if minE < 1 \<or> minE > maxE sdiv 2 then maxE sdiv 2 else minE),
      maxEntries = maxE,
      rt_size = 0,
      rt_heap = (\<lambda>_. zeroNode)(0 := zeroNode\<lparr>isLeaf := True\<rparr>),
      rt_nalloc = 1\<rparr>"

definition NewRectangle :: "real \<Rightarrow> real \<Rightarrow> real \<Rightarrow> real \<Rightarrow> Rectangle" where
  "NewRectangle minX minY maxX maxY = \<lparr>MinX = minX, MinY = minY, MaxX = maxX, MaxY = maxY\<rparr>"

definition NewPoint :: "real \<Rightarrow> real \<Rightarrow> Rectangle" where
  "NewPoint x y = \<lparr>MinX = x, MinY = y, MaxX = x, MaxY = y\<rparr>"

subsection \<open>Geometry\<close>


definition Margin :: "Rectangle \<Rightarrow> real" where
  "Margin r = (MaxX r - MinX r) + (MaxY r - MinY r)"



definition ContainsPoint :: "Rectangle \<Rightarrow> Point \<Rightarrow> bool" where
  "ContainsPoint r p \<longleftrightarrow>
     X p \<ge> MinX r \<and> X p \<le> MaxX r \<and> Y p \<ge> MinY r \<and> Y p \<le> MaxY r"

definition Expand :: "Rectangle \<Rightarrow> Rectangle \<Rightarrow> Rectangle" where
  "Expand r other =
     \<lparr>MinX = min (MinX r) (MinX other), MinY = min (MinY r) (MinY other),
      MaxX = max (MaxX r) (MaxX other), MaxY = max (MaxY r) (MaxY other)\<rparr>"



definition Distance :: "Rectangle \<Rightarrow> Point \<Rightarrow> real" where
  "Distance r p =
     (let dx = max 0 (max (MinX r - X p) (X p - MaxX r));
          dy = max 0 (max (MinY r - Y p) (Y p - MaxY r))
      in sqrt (dx * dx + dy * dy))"

subsection \<open>Node store updates\<close>

definition setNode :: "ptr \<Rightarrow> ('d Node \<Rightarrow> 'd Node) \<Rightarrow> 'd RTree \<Rightarrow> 'd RTree" where
  "setNode n g t = t\<lparr>rt_heap := (rt_heap t)(n := g (rt_heap t n))\<rparr>"

definition allocNode :: "'d Node \<Rightarrow> 'd RTree \<Rightarrow> 'd RTree" where
  "allocNode nd t = t\<lparr>rt_heap := (rt_heap t)(rt_nalloc t := nd), rt_nalloc := Suc (rt_nalloc t)\<rparr>"

subsection \<open>chooseLeaf\<close>



subsection \<open>updateBounds\<close>

definition entryBounds :: "'d RTree \<Rightarrow> ptr \<Rightarrow> Rectangle list" where
  "entryBounds t n =
     (if isLeaf (rt_heap t n) then map Bounds (items (rt_heap t n))
      else map (\<lambda>c. bounds (rt_heap t c)) (children (rt_heap t n)))"


subsection \<open>Sorting\<close>

definition swapIfGreater :: "('a \<Rightarrow> real) \<Rightarrow> nat \<Rightarrow> nat \<Rightarrow> 'a list \<Rightarrow> 'a list" where
  "swapIfGreater key i j xs =
     (if key (xs ! i) > key (xs ! j) then xs[i := xs ! j, j := xs ! i] else xs)"

definition exchangeSort :: "('a \<Rightarrow> real) \<Rightarrow> 'a list \<Rightarrow> 'a list" where
  "exchangeSort key xs =
     fold (\<lambda>i ys. fold (swapIfGreater key i) [i + 1 ..< length ys] ys) [0 ..< length xs - 1] xs"

definition sortItemsByMinX :: "'d Item list \<Rightarrow> 'd Item list" where
  "sortItemsByMinX its = exchangeSort (\<lambda>it. MinX (Bounds it)) its"

definition sortItemsByMinY :: "'d Item list \<Rightarrow> 'd Item list" where
  "sortItemsByMinY its = exchangeSort (\<lambda>it. MinY (Bounds it)) its"

definition sortNodesByMinX :: "'d RTree \<Rightarrow> ptr list \<Rightarrow> ptr list" where
  "sortNodesByMinX t ns = exchangeSort (\<lambda>c. MinX (bounds (rt_heap t c))) ns"

definition sortNodesByMinY :: "'d RTree \<Rightarrow> ptr list \<Rightarrow> ptr list" where
  "sortNodesByMinY t ns = exchangeSort (\<lambda>c. MinY (bounds (rt_heap t c))) ns"

definition sortEntries :: "int \<Rightarrow> ptr \<Rightarrow> 'd RTree \<Rightarrow> 'd RTree" where
  "sortEntries axis n t =
     (if isLeaf (rt_heap t n)
      then setNode n (\<lambda>nd. nd\<lparr>items :=
             (if axis = 0 then sortItemsByMinX (items nd) else sortItemsByMinY (items nd))\<rparr>) t
      else setNode n (\<lambda>nd. nd\<lparr>children :=
             (if axis = 0 then sortNodesByMinX t (children nd)
              else sortNodesByMinY t (children nd))\<rparr>) t)"

subsection \<open>Split heuristics\<close>

fun expandRange :: "Rectangle list \<Rightarrow> Rectangle \<Rightarrow> int list \<Rightarrow> Rectangle option" where
  "expandRange rs r [] = Some r"
| "expandRange rs r (j # js) =
     (case nth_opt rs j of None \<Rightarrow> None | Some b \<Rightarrow> expandRange rs (Expand r b) js)"

definition groupBounds :: "Rectangle list \<Rightarrow> int \<Rightarrow> int \<Rightarrow> Rectangle option" where
  "groupBounds rs first stop =
     (case nth_opt rs first of
        None \<Rightarrow> None
      | Some r \<Rightarrow> expandRange rs r [first + 1 .. stop - 1])"

fun marginLoop :: "Rectangle list \<Rightarrow> real \<Rightarrow> int list \<Rightarrow> real option" where
  "marginLoop rs msum [] = Some msum"
| "marginLoop rs msum (i # rest) =
     (case groupBounds rs 0 i of
        None \<Rightarrow> None
      | Some r1 \<Rightarrow>
          (case groupBounds rs i (int (length rs)) of
             None \<Rightarrow> None
           | Some r2 \<Rightarrow> marginLoop rs (msum + (Margin r1 + Margin r2)) rest))"

definition calculateMarginSum :: "'d RTree \<Rightarrow> ptr \<Rightarrow> real option" where
  "calculateMarginSum t n =
     (let rs = entryBounds t n; count = int (length rs)
      in marginLoop rs 0 [minEntries t .. count - minEntries t])"

definition marginSums :: "'d RTree \<Rightarrow> ptr \<Rightarrow> (real \<times> real \<times> 'd RTree) option" where
  "marginSums t n =
     (let t1 = sortEntries 0 n t in
      case calculateMarginSum t1 n of
        None \<Rightarrow> None
      | Some xMargin \<Rightarrow>
          (let t2 = sortEntries 1 n t1 in
           case calculateMarginSum t2 n of
             None \<Rightarrow> None
           | Some yMargin \<Rightarrow> Some (xMargin, yMargin, t2)))"

definition chooseSplitAxis :: "'d RTree \<Rightarrow> ptr \<Rightarrow> (int \<times> 'd RTree) option" where
  "chooseSplitAxis t n =
     (case marginSums t n of
        None \<Rightarrow> None
      | Some (xMargin, yMargin, t') \<Rightarrow> Some (if xMargin < yMargin then 0 else 1, t'))"



subsection \<open>splitNode and Insert\<close>



definition newRoot :: "ptr \<Rightarrow> ptr \<Rightarrow> 'd RTree \<Rightarrow> 'd RTree" where
  "newRoot n new t =
     (let r = rt_nalloc t in
      setNode new (\<lambda>nd. nd\<lparr>parent := Some r\<rparr>)
        (setNode n (\<lambda>nd. nd\<lparr>parent := Some r\<rparr>)
           ((allocNode (zeroNode\<lparr>isLeaf := False, children := [n, new]\<rparr>) t)\<lparr>rt_root := r\<rparr>)))"



subsection \<open>Queries\<close>



record 'd queueItem =
  qnode :: "ptr option"
  qitem :: "'d Item option"
  distance :: real

definition minIndex :: "'d queueItem list \<Rightarrow> nat" where
  "minIndex queue =
     fold (\<lambda>i minIdx. if distance (queue ! i) < distance (queue ! minIdx) then i else minIdx)
       [1 ..< length queue] 0"

definition expandNode :: "'d RTree \<Rightarrow> Point \<Rightarrow> ptr \<Rightarrow> 'd queueItem list" where
  "expandNode t p n =
     (if isLeaf (rt_heap t n)
      then map (\<lambda>item. \<lparr>qnode = None, qitem = Some item, distance = Distance (Bounds item) p\<rparr>)
             (items (rt_heap t n))
      else map (\<lambda>child. \<lparr>qnode = Some child, qitem = None,
                          distance = Distance (bounds (rt_heap t child)) p\<rparr>)
             (children (rt_heap t n)))"

fun nnLoop ::
  "nat \<Rightarrow> 'd RTree \<Rightarrow> Point \<Rightarrow> int \<Rightarrow> 'd queueItem list \<Rightarrow> 'd Item list \<Rightarrow> 'd Item list option"
  where
  "nnLoop f t p k queue result =
     (if queue \<noteq> [] \<and> int (length result) < k
      then (case f of
              0 \<Rightarrow> None
            | Suc f' \<Rightarrow>
                (let minIdx = minIndex queue;
                     current = queue ! minIdx;
                     queue' = take minIdx queue @ drop (Suc minIdx) queue
                 in case qitem current of
                      Some item \<Rightarrow> nnLoop f' t p k queue' (result @ [item])
                    | None \<Rightarrow>
                        (case qnode current of
                           None \<Rightarrow> None
                         | Some n \<Rightarrow> nnLoop f' t p k (queue' @ expandNode t p n) result)))
      else Some result)"

declare nnLoop.simps [simp del]

definition NearestNeighbor :: "nat \<Rightarrow> 'd RTree \<Rightarrow> Point \<Rightarrow> int \<Rightarrow> 'd Item list option" where
  "NearestNeighbor f t p k =
     nnLoop f t p k
       [\<lparr>qnode = Some (rt_root t), qitem = None,
         distance = Distance (bounds (rt_heap t (rt_root t))) p\<rparr>] []"

section \<open>Package bplustree: data\<close>

text \<open>
  Keys are any linearly ordered type (\<open>cmp.Ordered\<close> without NaN), values any type with
  a zero value.  A function of the source that ends in a call of another
  rebalancing function is split into its own body (a step that returns what to call
  next) and the call.
\<close>

record ('k, 'v) Entry =
  Key :: 'k
  Value :: 'v

record ('k, 'v) node =
  bp_isLeaf :: bool
  keys :: "'k list"
  bp_children :: "ptr list"
  entries :: "('k, 'v) Entry list"
  bp_next :: "ptr option"
  bp_parent :: "ptr option"

record ('k, 'v) BPlusTree =
  bp_root :: "ptr option"
  degree :: int
  bp_heap :: "ptr \<Rightarrow> ('k, 'v) node"
  bp_nalloc :: nat

definition zeroBNode :: "('k, 'v) node" where
  "zeroBNode =
     \<lparr>bp_isLeaf = False, keys = [], bp_children = [], entries = [], bp_next = None,
      bp_parent = None\<rparr>"

definition New :: "int \<Rightarrow> ('k, 'v) BPlusTree" where
  "New d =
     \<lparr>bp_root = None, degree = (if d < 2 then 2 else d), bp_heap = (\<lambda>_. zeroBNode),
      bp_nalloc = 0\<rparr>"

definition maxLeafEntries :: "('k, 'v) BPlusTree \<Rightarrow> int" where
  "maxLeafEntries t = degree t * 2 - 1"

definition minLeafEntries :: "('k, 'v) BPlusTree \<Rightarrow> int" where
  "minLeafEntries t = degree t - 1"

definition maxInternalKeys :: "('k, 'v) BPlusTree \<Rightarrow> int" where
  "maxInternalKeys t = degree t * 2 - 1"

definition minInternalKeys :: "('k, 'v) BPlusTree \<Rightarrow> int" where
  "minInternalKeys t = degree t - 1"

definition bpSet ::
  "ptr \<Rightarrow> (('k, 'v) node \<Rightarrow> ('k, 'v) node) \<Rightarrow> ('k, 'v) BPlusTree \<Rightarrow> ('k, 'v) BPlusTree" where
  "bpSet n g t = t\<lparr>bp_heap := (bp_heap t)(n := g (bp_heap t n))\<rparr>"

definition bpAlloc :: "('k, 'v) node \<Rightarrow> ('k, 'v) BPlusTree \<Rightarrow> ('k, 'v) BPlusTree" where
  "bpAlloc nd t = t\<lparr>bp_heap := (bp_heap t)(bp_nalloc t := nd), bp_nalloc := Suc (bp_nalloc t)\<rparr>"

text \<open>\<open>for i < len(children) && children[i] != x { i++ }\<close>\<close>

definition childPos :: "ptr \<Rightarrow> ptr list \<Rightarrow> nat" where
  "childPos x cs = length (takeWhile (\<lambda>c. c \<noteq> x) cs)"

definition reparent :: "ptr list \<Rightarrow> ptr \<Rightarrow> ('k, 'v) BPlusTree \<Rightarrow> ('k, 'v) BPlusTree" where
  "reparent cs p t = fold (\<lambda>child. bpSet child (\<lambda>nd. nd\<lparr>bp_parent := Some p\<rparr>)) cs t"

subsection \<open>Descent\<close>

fun findLeafFrom :: "nat \<Rightarrow> ('k::linorder, 'v) BPlusTree \<Rightarrow> ptr \<Rightarrow> 'k \<Rightarrow> ptr option" where
  "findLeafFrom 0 t n key = None"
| "findLeafFrom (Suc f) t n key =
     (if bp_isLeaf (bp_heap t n) then Some n
      else case nth_opt (bp_children (bp_heap t n))
                  (int (length (takeWhile (\<lambda>k. key \<ge> k) (keys (bp_heap t n))))) of
             None \<Rightarrow> None
           | Some c \<Rightarrow> findLeafFrom f t c key)"

definition findLeaf :: "nat \<Rightarrow> ('k::linorder, 'v) BPlusTree \<Rightarrow> 'k \<Rightarrow> ptr option" where
  "findLeaf f t key =
     (case bp_root t of None \<Rightarrow> None | Some r \<Rightarrow> findLeafFrom f t r key)"

fun firstLeafFrom :: "nat \<Rightarrow> ('k, 'v) BPlusTree \<Rightarrow> ptr \<Rightarrow> ptr option" where
  "firstLeafFrom 0 t n = None"
| "firstLeafFrom (Suc f) t n =
     (if bp_isLeaf (bp_heap t n) then Some n
      else case bp_children (bp_heap t n) of
             [] \<Rightarrow> None
           | c # _ \<Rightarrow> firstLeafFrom f t c)"

definition firstLeaf :: "nat \<Rightarrow> ('k, 'v) BPlusTree \<Rightarrow> ptr option option" where
  "firstLeaf f t =
     (case bp_root t of
        None \<Rightarrow> Some None
      | Some r \<Rightarrow> map_option Some (firstLeafFrom f t r))"

subsection \<open>Search\<close>

definition BPlusTree_Search ::
  "nat \<Rightarrow> ('k::linorder, 'v::zero) BPlusTree \<Rightarrow> 'k \<Rightarrow> ('v \<times> bool) option" where
  "BPlusTree_Search f t key =
     (case bp_root t of
        None \<Rightarrow> Some (0, False)
      | Some r \<Rightarrow>
          (case findLeaf f t key of
             None \<Rightarrow> None
           | Some leaf \<Rightarrow>
               (case find (\<lambda>e. Key e = key) (entries (bp_heap t leaf)) of
                  Some e \<Rightarrow> Some (Value e, True)
                | None \<Rightarrow> Some (0, False))))"

subsection \<open>Insert\<close>

fun overwriteFirst ::
  "'k \<Rightarrow> 'v \<Rightarrow> ('k, 'v) Entry list \<Rightarrow> ('k, 'v) Entry list option" where
  "overwriteFirst key v [] = None"
| "overwriteFirst key v (e # es) =
     (if Key e = key then Some (e\<lparr>Value := v\<rparr> # es)
      else map_option ((#) e) (overwriteFirst key v es))"

definition insertIntoLeaf ::
  "ptr \<Rightarrow> 'k::linorder \<Rightarrow> 'v \<Rightarrow> ('k, 'v) BPlusTree \<Rightarrow> ('k, 'v) BPlusTree" where
  "insertIntoLeaf leaf key v t =
     bpSet leaf
       (\<lambda>nd. let i = length (takeWhile (\<lambda>e. Key e < key) (entries nd))
             in nd\<lparr>entries := take i (entries nd) @ [\<lparr>Key = key, Value = v\<rparr>] @ drop i (entries nd)\<rparr>)
       t"

datatype ('k, 'v) splitNext =
  SplitDone "('k, 'v) BPlusTree"
| SplitParent ptr "('k, 'v) BPlusTree"

text \<open>\<open>insertIntoParent\<close> up to its call of \<open>splitInternal\<close>.\<close>

definition insertIntoParentStep ::
  "ptr \<Rightarrow> 'k \<Rightarrow> ptr \<Rightarrow> ('k, 'v) BPlusTree \<Rightarrow> ('k, 'v) splitNext option" where
  "insertIntoParentStep left key right t =
     (case bp_parent (bp_heap t left) of
        None \<Rightarrow>
          (let newRoot = bp_nalloc t;
               t1 = (bpAlloc (zeroBNode\<lparr>keys := [key], bp_children := [left, right]\<rparr>) t)
                      \<lparr>bp_root := Some newRoot\<rparr>;
               t2 = bpSet left (\<lambda>nd. nd\<lparr>bp_parent := Some newRoot\<rparr>) t1;
               t3 = bpSet right (\<lambda>nd. nd\<lparr>bp_parent := Some newRoot\<rparr>) t2
           in Some (SplitDone t3))
      | Some parent' \<Rightarrow>
          (let t1 = bpSet right (\<lambda>nd. nd\<lparr>bp_parent := Some parent'\<rparr>) t;
               ks = keys (bp_heap t1 parent');
               cs = bp_children (bp_heap t1 parent');
               i = childPos left cs
           in if i > length ks \<or> i + 1 > length cs then None
              else
                (let t2 = bpSet parent'
                            (\<lambda>nd. nd\<lparr>keys := take i ks @ [key] @ drop i ks,
                                     bp_children := take (i + 1) cs @ [right] @ drop (i + 1) cs\<rparr>)
                            t1
                 in if int (length (keys (bp_heap t2 parent'))) > maxInternalKeys t2
                    then Some (SplitParent parent' t2)
                    else Some (SplitDone t2))))"

text \<open>\<open>splitInternal\<close> up to its call of \<open>insertIntoParent\<close>: the promoted key, the new node, the state.\<close>

definition splitInternalStep ::
  "ptr \<Rightarrow> ('k, 'v) BPlusTree \<Rightarrow> ('k \<times> ptr \<times> ('k, 'v) BPlusTree) option" where
  "splitInternalStep n t =
     (let ks = keys (bp_heap t n);
          cs = bp_children (bp_heap t n);
          mid = length ks div 2
      in if mid \<ge> length ks \<or> mid + 1 > length cs then None
         else
           (let promoteKey = ks ! mid;
                newNode = bp_nalloc t;
                t1 = bpAlloc (zeroBNode\<lparr>keys := drop (mid + 1) ks,
                                         bp_children := drop (mid + 1) cs,
                                         bp_parent := bp_parent (bp_heap t n)\<rparr>) t;
                t2 = reparent (drop (mid + 1) cs) newNode t1;
                t3 = bpSet n (\<lambda>nd. nd\<lparr>keys := take mid ks, bp_children := take (mid + 1) cs\<rparr>) t2
            in Some (promoteKey, newNode, t3)))"

fun insertIntoParent ::
  "nat \<Rightarrow> ptr \<Rightarrow> 'k \<Rightarrow> ptr \<Rightarrow> ('k, 'v) BPlusTree \<Rightarrow> ('k, 'v) BPlusTree option"
and splitInternal :: "nat \<Rightarrow> ptr \<Rightarrow> ('k, 'v) BPlusTree \<Rightarrow> ('k, 'v) BPlusTree option" where
  "insertIntoParent 0 left key right t = None"
| "insertIntoParent (Suc f) left key right t =
     (case insertIntoParentStep left key right t of
        None \<Rightarrow> None
      | Some (SplitDone t') \<Rightarrow> Some t'
      | Some (SplitParent parent' t') \<Rightarrow> splitInternal f parent' t')"
| "splitInternal 0 n t = None"
| "splitInternal (Suc f) n t =
     (case splitInternalStep n t of
        None \<Rightarrow> None
      | Some (promoteKey, newNode, t') \<Rightarrow> insertIntoParent f n promoteKey newNode t')"

text \<open>\<open>splitLeaf\<close> up to its call of \<open>insertIntoParent\<close>.\<close>

definition splitLeafStep ::
  "ptr \<Rightarrow> ('k, 'v) BPlusTree \<Rightarrow> ('k \<times> ptr \<times> ('k, 'v) BPlusTree) option" where
  "splitLeafStep leaf t =
     (let es = entries (bp_heap t leaf);
          mid = length es div 2;
          newLeaf = bp_nalloc t;
          t1 = bpAlloc (zeroBNode\<lparr>bp_isLeaf := True, entries := drop mid es,
                                   bp_next := bp_next (bp_heap t leaf),
                                   bp_parent := bp_parent (bp_heap t leaf)\<rparr>) t;
          t2 = bpSet leaf (\<lambda>nd. nd\<lparr>entries := take mid es, bp_next := Some newLeaf\<rparr>) t1
      in case drop mid es of
           [] \<Rightarrow> None
         | e # _ \<Rightarrow> Some (Key e, newLeaf, t2))"

definition splitLeaf :: "nat \<Rightarrow> ptr \<Rightarrow> ('k, 'v) BPlusTree \<Rightarrow> ('k, 'v) BPlusTree option" where
  "splitLeaf f leaf t =
     (case splitLeafStep leaf t of
        None \<Rightarrow> None
      | Some (key, newLeaf, t') \<Rightarrow> insertIntoParent f leaf key newLeaf t')"

definition BPlusTree_Insert ::
  "nat \<Rightarrow> 'k::linorder \<Rightarrow> 'v \<Rightarrow> ('k, 'v) BPlusTree \<Rightarrow> ('k, 'v) BPlusTree option" where
  "BPlusTree_Insert f key v t =
     (case bp_root t of
        None \<Rightarrow>
          Some ((bpAlloc (zeroBNode\<lparr>bp_isLeaf := True, entries := [\<lparr>Key = key, Value = v\<rparr>]\<rparr>) t)
                  \<lparr>bp_root := Some (bp_nalloc t)\<rparr>)
      | Some r \<Rightarrow>
          (case findLeaf f t key of
             None \<Rightarrow> None
           | Some leaf \<Rightarrow>
               (case overwriteFirst key v (entries (bp_heap t leaf)) of
                  Some es \<Rightarrow> Some (bpSet leaf (\<lambda>nd. nd\<lparr>entries := es\<rparr>) t)
                | None \<Rightarrow>
                    (let t1 = insertIntoLeaf leaf key v t
                     in if int (length (entries (bp_heap t1 leaf))) > maxLeafEntries t1
                        then splitLeaf f leaf t1
                        else Some t1))))"

subsection \<open>Delete\<close>

datatype ('k, 'v) mergeNext =
  MergeDone "('k, 'v) BPlusTree"
| MergeParent ptr nat "('k, 'v) BPlusTree"

datatype ('k, 'v) shrinkNext =
  ShrinkDone "('k, 'v) BPlusTree"
| ShrinkRebalance ptr "('k, 'v) BPlusTree"

definition setKey :: "ptr \<Rightarrow> nat \<Rightarrow> 'k \<Rightarrow> ('k, 'v) BPlusTree \<Rightarrow> ('k, 'v) BPlusTree option" where
  "setKey p i k t =
     (if i < length (keys (bp_heap t p))
      then Some (bpSet p (\<lambda>nd. nd\<lparr>keys := (keys nd)[i := k]\<rparr>) t)
      else None)"

text \<open>The two borrow attempts of \<open>rebalanceLeaf\<close>; \<open>Some None\<close> when neither sibling can lend.\<close>

definition leafBorrow ::
  "ptr \<Rightarrow> ptr \<Rightarrow> nat \<Rightarrow> ('k, 'v) BPlusTree \<Rightarrow> ('k, 'v) BPlusTree option option" where
  "leafBorrow leaf parent' idx t =
     (let cs = bp_children (bp_heap t parent');
          fromRight =
            (if int idx < int (length cs) - 1
             then (case nth_opt cs (int idx + 1) of
                     None \<Rightarrow> None
                   | Some rightSibling \<Rightarrow>
                       if int (length (entries (bp_heap t rightSibling))) > minLeafEntries t
                       then (case entries (bp_heap t rightSibling) of
                               [] \<Rightarrow> None
                             | borrowed # rest \<Rightarrow>
                                 (let t1 = bpSet rightSibling (\<lambda>nd. nd\<lparr>entries := rest\<rparr>) t;
                                      t2 = bpSet leaf (\<lambda>nd. nd\<lparr>entries := entries nd @ [borrowed]\<rparr>) t1
                                  in case entries (bp_heap t2 rightSibling) of
                                       [] \<Rightarrow> None
                                     | e # _ \<Rightarrow> map_option Some (setKey parent' idx (Key e) t2)))
                       else Some None)
             else Some None)
      in if idx > 0
         then (case nth_opt cs (int idx - 1) of
                 None \<Rightarrow> None
               | Some leftSibling \<Rightarrow>
                   if int (length (entries (bp_heap t leftSibling))) > minLeafEntries t
                   then (if entries (bp_heap t leftSibling) = [] then None
                         else
                           (let borrowed = last (entries (bp_heap t leftSibling));
                                t1 = bpSet leftSibling (\<lambda>nd. nd\<lparr>entries := butlast (entries nd)\<rparr>) t;
                                t2 = bpSet leaf (\<lambda>nd. nd\<lparr>entries := borrowed # entries nd\<rparr>) t1
                            in map_option Some (setKey parent' (idx - 1) (Key borrowed) t2)))
                   else fromRight)
         else fromRight)"

text \<open>The merge of \<open>rebalanceLeaf\<close>, up to its call of \<open>deleteFromParent\<close>.\<close>

definition leafMerge ::
  "ptr \<Rightarrow> ptr \<Rightarrow> nat \<Rightarrow> ('k, 'v) BPlusTree \<Rightarrow> ('k, 'v) mergeNext option" where
  "leafMerge leaf parent' idx t =
     (let cs = bp_children (bp_heap t parent') in
      if idx > 0
      then (case nth_opt cs (int idx - 1) of
              None \<Rightarrow> None
            | Some leftSibling \<Rightarrow>
                Some (MergeParent parent' (idx - 1)
                  (bpSet leftSibling
                     (\<lambda>nd. nd\<lparr>entries := entries nd @ entries (bp_heap t leaf),
                              bp_next := bp_next (bp_heap t leaf)\<rparr>) t)))
      else if int idx < int (length cs) - 1
      then (case nth_opt cs (int idx + 1) of
              None \<Rightarrow> None
            | Some rightSibling \<Rightarrow>
                Some (MergeParent parent' idx
                  (bpSet leaf
                     (\<lambda>nd. nd\<lparr>entries := entries nd @ entries (bp_heap t rightSibling),
                              bp_next := bp_next (bp_heap t rightSibling)\<rparr>) t)))
      else Some (MergeDone t))"

definition rebalanceLeafStep ::
  "ptr \<Rightarrow> ('k, 'v) BPlusTree \<Rightarrow> ('k, 'v) mergeNext option" where
  "rebalanceLeafStep leaf t =
     (case bp_parent (bp_heap t leaf) of
        None \<Rightarrow> Some (MergeDone t)
      | Some parent' \<Rightarrow>
          (let idx = childPos leaf (bp_children (bp_heap t parent')) in
           case leafBorrow leaf parent' idx t of
             None \<Rightarrow> None
           | Some (Some t') \<Rightarrow> Some (MergeDone t')
           | Some None \<Rightarrow> leafMerge leaf parent' idx t))"

text \<open>The two borrow attempts of \<open>rebalanceInternal\<close>.\<close>

definition internalBorrow ::
  "ptr \<Rightarrow> ptr \<Rightarrow> nat \<Rightarrow> ('k, 'v) BPlusTree \<Rightarrow> ('k, 'v) BPlusTree option option" where
  "internalBorrow n parent' idx t =
     (let cs = bp_children (bp_heap t parent');
          pks = keys (bp_heap t parent');
          fromRight =
            (if int idx < int (length cs) - 1
             then (case nth_opt cs (int idx + 1) of
                     None \<Rightarrow> None
                   | Some rightSibling \<Rightarrow>
                       if int (length (keys (bp_heap t rightSibling))) > minInternalKeys t
                       then (case (keys (bp_heap t rightSibling),
                                   bp_children (bp_heap t rightSibling)) of
                               (borrowedKey # ks', borrowedChild # cs') \<Rightarrow>
                                 (case nth_opt pks (int idx) of
                                    None \<Rightarrow> None
                                  | Some sep \<Rightarrow>
                                      (let t1 = bpSet rightSibling
                                                  (\<lambda>nd. nd\<lparr>keys := ks', bp_children := cs'\<rparr>) t;
                                           t2 = bpSet n
                                                  (\<lambda>nd. nd\<lparr>keys := keys nd @ [sep],
                                                           bp_children := bp_children nd @ [borrowedChild]\<rparr>)
                                                  t1;
                                           t3 = bpSet borrowedChild (\<lambda>nd. nd\<lparr>bp_parent := Some n\<rparr>) t2
                                       in map_option Some (setKey parent' idx borrowedKey t3)))
                             | _ \<Rightarrow> None)
                       else Some None)
             else Some None)
      in if idx > 0
         then (case nth_opt cs (int idx - 1) of
                 None \<Rightarrow> None
               | Some leftSibling \<Rightarrow>
                   if int (length (keys (bp_heap t leftSibling))) > minInternalKeys t
                   then (if keys (bp_heap t leftSibling) = [] \<or>
                            bp_children (bp_heap t leftSibling) = [] then None
                         else
                           (case nth_opt pks (int idx - 1) of
                              None \<Rightarrow> None
                            | Some sep \<Rightarrow>
                                (let borrowedKey = last (keys (bp_heap t leftSibling));
                                     borrowedChild = last (bp_children (bp_heap t leftSibling));
                                     t1 = bpSet leftSibling
                                            (\<lambda>nd. nd\<lparr>keys := butlast (keys nd),
                                                     bp_children := butlast (bp_children nd)\<rparr>) t;
                                     t2 = bpSet n
                                            (\<lambda>nd. nd\<lparr>keys := sep # keys nd,
                                                     bp_children := borrowedChild # bp_children nd\<rparr>) t1;
                                     t3 = bpSet borrowedChild (\<lambda>nd. nd\<lparr>bp_parent := Some n\<rparr>) t2
                                 in map_option Some (setKey parent' (idx - 1) borrowedKey t3))))
                   else fromRight)
         else fromRight)"

text \<open>The merge of \<open>rebalanceInternal\<close>, up to its call of \<open>deleteFromParent\<close>.\<close>

definition internalMerge ::
  "ptr \<Rightarrow> ptr \<Rightarrow> nat \<Rightarrow> ('k, 'v) BPlusTree \<Rightarrow> ('k, 'v) mergeNext option" where
  "internalMerge n parent' idx t =
     (let cs = bp_children (bp_heap t parent');
          pks = keys (bp_heap t parent') in
      if idx > 0
      then (case nth_opt cs (int idx - 1) of
              None \<Rightarrow> None
            | Some leftSibling \<Rightarrow>
                (case nth_opt pks (int idx - 1) of
                   None \<Rightarrow> None
                 | Some sep \<Rightarrow>
                     (let t1 = bpSet leftSibling
                                 (\<lambda>nd. nd\<lparr>keys := keys nd @ [sep] @ keys (bp_heap t n),
                                          bp_children := bp_children nd @ bp_children (bp_heap t n)\<rparr>) t;
                          t2 = reparent (bp_children (bp_heap t n)) leftSibling t1
                      in Some (MergeParent parent' (idx - 1) t2))))
      else if int idx < int (length cs) - 1
      then (case nth_opt cs (int idx + 1) of
              None \<Rightarrow> None
            | Some rightSibling \<Rightarrow>
                (case nth_opt pks (int idx) of
                   None \<Rightarrow> None
                 | Some sep \<Rightarrow>
                     (let t1 = bpSet n
                                 (\<lambda>nd. nd\<lparr>keys := keys nd @ [sep] @ keys (bp_heap t rightSibling),
                                          bp_children := bp_children nd @
                                            bp_children (bp_heap t rightSibling)\<rparr>) t;
                          t2 = reparent (bp_children (bp_heap t rightSibling)) n t1
                      in Some (MergeParent parent' idx t2))))
      else Some (MergeDone t))"

definition rebalanceInternalStep ::
  "ptr \<Rightarrow> ('k, 'v) BPlusTree \<Rightarrow> ('k, 'v) mergeNext option" where
  "rebalanceInternalStep n t =
     (case bp_parent (bp_heap t n) of
        None \<Rightarrow> Some (MergeDone t)
      | Some parent' \<Rightarrow>
          (let idx = childPos n (bp_children (bp_heap t parent')) in
           case internalBorrow n parent' idx t of
             None \<Rightarrow> None
           | Some (Some t') \<Rightarrow> Some (MergeDone t')
           | Some None \<Rightarrow> internalMerge n parent' idx t))"

text \<open>\<open>deleteFromParent\<close> up to its call of \<open>rebalanceInternal\<close>.\<close>

definition deleteFromParentStep ::
  "ptr \<Rightarrow> nat \<Rightarrow> ('k, 'v) BPlusTree \<Rightarrow> ('k, 'v) shrinkNext option" where
  "deleteFromParentStep parent' keyIdx t =
     (let ks = keys (bp_heap t parent');
          cs = bp_children (bp_heap t parent');
          childIdx = keyIdx + 1
      in if keyIdx + 1 > length ks \<or> childIdx + 1 > length cs then None
         else
           (let t1 = bpSet parent'
                       (\<lambda>nd. nd\<lparr>keys := take keyIdx ks @ drop (keyIdx + 1) ks,
                                bp_children := take childIdx cs @ drop (childIdx + 1) cs\<rparr>) t
            in if bp_root t1 = Some parent' \<and> keys (bp_heap t1 parent') = []
               then (case bp_children (bp_heap t1 parent') of
                       [] \<Rightarrow> None
                     | c # _ \<Rightarrow>
                         Some (ShrinkDone
                           (bpSet c (\<lambda>nd. nd\<lparr>bp_parent := None\<rparr>) (t1\<lparr>bp_root := Some c\<rparr>))))
               else if bp_parent (bp_heap t1 parent') \<noteq> None \<and>
                       int (length (keys (bp_heap t1 parent'))) < minInternalKeys t1
               then Some (ShrinkRebalance parent' t1)
               else Some (ShrinkDone t1)))"

fun deleteFromParent ::
  "nat \<Rightarrow> ptr \<Rightarrow> nat \<Rightarrow> ('k, 'v) BPlusTree \<Rightarrow> ('k, 'v) BPlusTree option"
and rebalanceInternal :: "nat \<Rightarrow> ptr \<Rightarrow> ('k, 'v) BPlusTree \<Rightarrow> ('k, 'v) BPlusTree option" where
  "deleteFromParent 0 parent' keyIdx t = None"
| "deleteFromParent (Suc f) parent' keyIdx t =
     (case deleteFromParentStep parent' keyIdx t of
        None \<Rightarrow> None
      | Some (ShrinkDone t') \<Rightarrow> Some t'
      | Some (ShrinkRebalance n t') \<Rightarrow> rebalanceInternal f n t')"
| "rebalanceInternal 0 n t = None"
| "rebalanceInternal (Suc f) n t =
     (case rebalanceInternalStep n t of
        None \<Rightarrow> None
      | Some (MergeDone t') \<Rightarrow> Some t'
      | Some (MergeParent parent' keyIdx t') \<Rightarrow> deleteFromParent f parent' keyIdx t')"

definition rebalanceLeaf :: "nat \<Rightarrow> ptr \<Rightarrow> ('k, 'v) BPlusTree \<Rightarrow> ('k, 'v) BPlusTree option" where
  "rebalanceLeaf f leaf t =
     (case rebalanceLeafStep leaf t of
        None \<Rightarrow> None
      | Some (MergeDone t') \<Rightarrow> Some t'
      | Some (MergeParent parent' keyIdx t') \<Rightarrow> deleteFromParent f parent' keyIdx t')"

definition BPlusTree_Delete ::
  "nat \<Rightarrow> 'k::linorder \<Rightarrow> ('k, 'v) BPlusTree \<Rightarrow> (bool \<times> ('k, 'v) BPlusTree) option" where
  "BPlusTree_Delete f key t =
     (case bp_root t of
        None \<Rightarrow> Some (False, t)
      | Some r \<Rightarrow>
          (case findLeaf f t key of
             None \<Rightarrow> None
           | Some leaf \<Rightarrow>
               (let es = entries (bp_heap t leaf);
                    idx = length (takeWhile (\<lambda>e. Key e \<noteq> key) es)
                in if idx \<ge> length es then Some (False, t)
                   else
                     (let t1 = bpSet leaf (\<lambda>nd. nd\<lparr>entries := take idx es @ drop (idx + 1) es\<rparr>) t
                      in if Some leaf = bp_root t1
                         then (if entries (bp_heap t1 leaf) = []
                               then Some (True, t1\<lparr>bp_root := None\<rparr>)
                               else Some (True, t1))
                         else if int (length (entries (bp_heap t1 leaf))) < minLeafEntries t1
                         then map_option (Pair True) (rebalanceLeaf f leaf t1)
                         else Some (True, t1)))))"

subsection \<open>Range, All, Len\<close>

fun scanLeaf ::
  "'k::linorder \<Rightarrow> 'k \<Rightarrow> ('k, 'v) Entry list \<Rightarrow> ('k, 'v) Entry list \<Rightarrow> ('k, 'v) Entry list \<times> bool"
  where
  "scanLeaf start end' [] result = (result, False)"
| "scanLeaf start end' (e # es) result =
     (if Key e \<ge> start \<and> Key e \<le> end' then scanLeaf start end' es (result @ [e])
      else if Key e > end' then (result, True)
      else scanLeaf start end' es result)"

fun rangeLoop ::
  "nat \<Rightarrow> ('k::linorder, 'v) BPlusTree \<Rightarrow> ptr option \<Rightarrow> 'k \<Rightarrow> 'k \<Rightarrow> ('k, 'v) Entry list \<Rightarrow>
   ('k, 'v) Entry list option" where
  "rangeLoop f t None start end' result = Some result"
| "rangeLoop 0 t (Some leaf) start end' result = None"
| "rangeLoop (Suc f) t (Some leaf) start end' result =
     (case scanLeaf start end' (entries (bp_heap t leaf)) result of
        (result', True) \<Rightarrow> Some result'
      | (result', False) \<Rightarrow> rangeLoop f t (bp_next (bp_heap t leaf)) start end' result')"

definition Range ::
  "nat \<Rightarrow> ('k::linorder, 'v) BPlusTree \<Rightarrow> 'k \<Rightarrow> 'k \<Rightarrow> ('k, 'v) Entry list option" where
  "Range f t start end' =
     (case bp_root t of
        None \<Rightarrow> Some []
      | Some r \<Rightarrow>
          (case findLeaf f t start of
             None \<Rightarrow> None
           | Some leaf \<Rightarrow> rangeLoop f t (Some leaf) start end' []))"

fun allLoop ::
  "nat \<Rightarrow> ('k, 'v) BPlusTree \<Rightarrow> ptr option \<Rightarrow> ('k, 'v) Entry list \<Rightarrow> ('k, 'v) Entry list option"
  where
  "allLoop f t None result = Some result"
| "allLoop 0 t (Some leaf) result = None"
| "allLoop (Suc f) t (Some leaf) result =
     allLoop f t (bp_next (bp_heap t leaf)) (result @ entries (bp_heap t leaf))"

definition All :: "nat \<Rightarrow> ('k, 'v) BPlusTree \<Rightarrow> ('k, 'v) Entry list option" where
  "All f t =
     (case bp_root t of
        None \<Rightarrow> Some []
      | Some r \<Rightarrow>
          (case firstLeaf f t of None \<Rightarrow> None | Some leaf \<Rightarrow> allLoop f t leaf []))"

fun lenLoop :: "nat \<Rightarrow> ('k, 'v) BPlusTree \<Rightarrow> ptr option \<Rightarrow> int \<Rightarrow> int option" where
  "lenLoop f t None cnt = Some cnt"
| "lenLoop 0 t (Some leaf) cnt = None"
| "lenLoop (Suc f) t (Some leaf) cnt =
     lenLoop f t (bp_next (bp_heap t leaf)) (cnt + int (length (entries (bp_heap t leaf))))"

definition Len :: "nat \<Rightarrow> ('k, 'v) BPlusTree \<Rightarrow> int option" where
  "Len f t =
     (case bp_root t of
        None \<Rightarrow> Some 0
      | Some r \<Rightarrow>
          (case firstLeaf f t of None \<Rightarrow> None | Some leaf \<Rightarrow> lenLoop f t leaf 0))"

section \<open>Package rtree: specification vocabulary\<close>




text \<open>\<open>boundsOnly t t'\<close>: the two states differ at most in \<open>bounds\<close> fields.\<close>

definition boundsOnly :: "'d RTree \<Rightarrow> 'd RTree \<Rightarrow> bool" where
  "boundsOnly t t' \<longleftrightarrow>
     rt_root t' = rt_root t \<and> rt_nalloc t' = rt_nalloc t \<and> rt_size t' = rt_size t \<and>
     minEntries t' = minEntries t \<and> maxEntries t' = maxEntries t \<and>
     (\<forall>a. isLeaf (rt_heap t' a) = isLeaf (rt_heap t a) \<and>
          children (rt_heap t' a) = children (rt_heap t a) \<and>
          items (rt_heap t' a) = items (rt_heap t a) \<and>
          parent (rt_heap t' a) = parent (rt_heap t a))"









text \<open>\<open>permOnly t t'\<close>: the two states differ at most in the order of entries inside nodes.\<close>

definition permOnly :: "'d RTree \<Rightarrow> 'd RTree \<Rightarrow> bool" where
  "permOnly t t' \<longleftrightarrow>
     rt_root t' = rt_root t \<and> rt_nalloc t' = rt_nalloc t \<and> rt_size t' = rt_size t \<and>
     minEntries t' = minEntries t \<and> maxEntries t' = maxEntries t \<and>
     (\<forall>a. isLeaf (rt_heap t' a) = isLeaf (rt_heap t a) \<and>
          bounds (rt_heap t' a) = bounds (rt_heap t a) \<and>
          parent (rt_heap t' a) = parent (rt_heap t a) \<and>
          mset (children (rt_heap t' a)) = mset (children (rt_heap t a)) \<and>
          mset (items (rt_heap t' a)) = mset (items (rt_heap t a)))"









text \<open>
  The state handed to \<open>splitNode\<close> by the third insertion of the unit square into
  \<open>NewRTree(1, 2)\<close>: the root leaf holds three equal items, so both sort passes leave
  the slice as it is and the two margin sums are the same number.
\<close>

definition tieItem :: "nat Item" where
  "tieItem = \<lparr>Bounds = NewRectangle 0 0 1 1, Data = 0\<rparr>"

definition tieTree :: "nat RTree" where
  "tieTree =
     setNode 0 (\<lambda>nd. nd\<lparr>items := [tieItem, tieItem, tieItem], bounds := NewRectangle 0 0 1 1\<rparr>)
       ((NewRTree 1 2)\<lparr>rt_size := 3\<rparr>)"


section \<open>Package rtree: invariants of built trees\<close>

lemma setNode_simps [simp]:
  "rt_heap (setNode n g t) a = (if a = n then g (rt_heap t n) else rt_heap t a)"
  "rt_nalloc (setNode n g t) = rt_nalloc t"
  "rt_root (setNode n g t) = rt_root t"
  "rt_size (setNode n g t) = rt_size t"
  "minEntries (setNode n g t) = minEntries t"
  "maxEntries (setNode n g t) = maxEntries t"
  by (simp_all add: setNode_def)

lemma allocNode_simps [simp]:
  "rt_heap (allocNode nd t) a = (if a = rt_nalloc t then nd else rt_heap t a)"
  "rt_nalloc (allocNode nd t) = Suc (rt_nalloc t)"
  "rt_root (allocNode nd t) = rt_root t"
  "rt_size (allocNode nd t) = rt_size t"
  "minEntries (allocNode nd t) = minEntries t"
  "maxEntries (allocNode nd t) = maxEntries t"
  by (simp_all add: allocNode_def)

lemma zeroNode_simps [simp]:
  "isLeaf zeroNode = False" "children zeroNode = []" "items zeroNode = []"
  "parent zeroNode = None" "bounds zeroNode = zeroRect"
  by (simp_all add: zeroNode_def)





lemma mset_swapIfGreater:
  "i < length xs \<Longrightarrow> j < length xs \<Longrightarrow> mset (swapIfGreater key i j xs) = mset xs"
  by (simp add: swapIfGreater_def mset_swap)

lemma length_swapIfGreater [simp]: "length (swapIfGreater key i j xs) = length xs"
  by (simp add: swapIfGreater_def)

lemma inner_sort_pass:
  "\<forall>j \<in> set js. j < length xs \<Longrightarrow> i < length xs \<Longrightarrow>
   mset (fold (swapIfGreater key i) js xs) = mset xs \<and> length (fold (swapIfGreater key i) js xs) = length xs"
  by (induction js arbitrary: xs) (simp_all add: mset_swapIfGreater)

lemma outer_sort_pass:
  "\<forall>i \<in> set is. i < length xs \<Longrightarrow>
   mset (fold (\<lambda>i ys. fold (swapIfGreater key i) [i + 1 ..< length ys] ys) is xs) = mset xs"
proof (induction "is" arbitrary: xs)
  case Nil
  then show ?case by simp
next
  case (Cons i "is")
  have "mset (fold (swapIfGreater key i) [i + 1 ..< length xs] xs) = mset xs \<and>
        length (fold (swapIfGreater key i) [i + 1 ..< length xs] xs) = length xs"
    using Cons.prems by (intro inner_sort_pass) auto
  with Cons show ?case by simp
qed

lemma mset_exchangeSort [simp]: "mset (exchangeSort key xs) = mset xs"
  unfolding exchangeSort_def by (rule outer_sort_pass) auto

lemma set_exchangeSort [simp]: "set (exchangeSort key xs) = set xs"
  using mset_exchangeSort [of key xs] by (metis set_mset_mset)

lemma length_exchangeSort [simp]: "length (exchangeSort key xs) = length xs"
  using mset_exchangeSort [of key xs] by (metis size_mset)

lemma distinct_exchangeSort [simp]: "distinct (exchangeSort key xs) = distinct xs"
  using mset_exchangeSort [of key xs] by (metis mset_eq_imp_distinct_iff)

lemma boundsOnly_refl [simp]: "boundsOnly t t"
  by (simp add: boundsOnly_def)












lemma permOnly_refl [simp]: "permOnly t t"
  by (simp add: permOnly_def)









































section \<open>Package rtree: the queries on built trees\<close>





















lemma nnLoop_stop:
  "\<not> (queue \<noteq> [] \<and> int (length result) < k) \<Longrightarrow> nnLoop f t p k queue result = Some result"
  by (subst nnLoop.simps) auto















section \<open>Package rtree: the split axis and the empty query\<close>

text \<open>
  C9 (as stated: on equal margin sums the X axis is chosen) fails: at \<open>tieTree\<close> both
  margin sums are 8 and \<open>chooseSplitAxis\<close> answers 1, the Y axis.
\<close>

theorem chooseSplitAxis_tie_counterexample:
  "map_option fst (marginSums tieTree 0) = Some 8 \<and>
   map_option (fst \<circ> snd) (marginSums tieTree 0) = Some 8 \<and>
   map_option fst (chooseSplitAxis tieTree 0) = Some 1"
  by code_simp

text \<open>
  C9 (amended): \<open>chooseSplitAxis\<close> answers 0 (the X axis) exactly when the X margin sum
  is strictly smaller than the Y margin sum; on equal margin sums it answers 1, the
  Y axis.
\<close>

theorem chooseSplitAxis_tie:
  assumes "marginSums t n = Some (xMargin, yMargin, t')"
  shows "(xMargin = yMargin \<longrightarrow> chooseSplitAxis t n = Some (1, t')) \<and>
         (chooseSplitAxis t n = Some (0, t') \<longleftrightarrow> xMargin < yMargin)"
  using assms by (simp add: chooseSplitAxis_def)

theorem chooseSplitAxis_tie_witness:
  "map_option fst (chooseSplitAxis tieTree 0) = Some 1 \<and>
   map_option fst (chooseSplitAxis tieTree 0) \<noteq> Some 0"
proof -
  have "map_option (\<lambda>(x, y, t). (x, y)) (marginSums tieTree 0) = Some (8, 8)"
    by code_simp
  then obtain t' where m: "marginSums tieTree 0 = Some (8, 8, t')"
    by (auto split: prod.splits)
  from chooseSplitAxis_tie [OF m] have "chooseSplitAxis tieTree 0 = Some (1, t')"
    by simp
  then show ?thesis by simp
qed

section \<open>Package rtree: nearest neighbours with a non-positive count\<close>

text \<open>
  C10: for every tree and every point, \<open>NearestNeighbor(p, k)\<close> with \<open>k \<le> 0\<close> returns
  the empty sequence, whatever the recursion budget: the loop guard
  \<open>len(result) < k\<close> is false before the first iteration.
\<close>

theorem NearestNeighbor_nonpositive:
  "k \<le> 0 \<Longrightarrow> NearestNeighbor f t p k = Some []"
  by (simp add: NearestNeighbor_def nnLoop_stop)

theorem NearestNeighbor_nonpositive_witness:
  "NearestNeighbor 0 tieTree \<lparr>X = 3, Y = 4\<rparr> (- 1) = Some []"
  using NearestNeighbor_nonpositive [of "- 1" 0 tieTree "\<lparr>X = 3, Y = 4\<rparr>"] by simp


section \<open>Package rtree: the parent-MBR law\<close>



section \<open>Package rtree: window search and nearest neighbours\<close>





end
